theory Spec2Isabelle
  imports Main
begin

section \<open>Python values\<close>

text \<open>
  Strings are ASCII here. \<open>is_space\<close> is \<open>str.isspace\<close> and the class \<open>\s\<close> on ASCII,
  \<open>is_digit\<close> is the class \<open>\d\<close> on ASCII.
\<close>

datatype pyerror = OverflowError | AttributeError | TypeError | ValueError

definition is_space :: "char \<Rightarrow> bool" where
  "is_space c = (c \<in> set [CHR 0x09, CHR 0x0A, CHR 0x0B, CHR 0x0C, CHR 0x0D,
                             CHR 0x1C, CHR 0x1D, CHR 0x1E, CHR 0x1F, CHR 0x20])"

definition is_digit :: "char \<Rightarrow> bool" where
  "is_digit c = (c \<in> set ''0123456789'')"

text \<open>\<open>str.lower\<close> on one ASCII character.\<close>

definition lower_char :: "char \<Rightarrow> char" where
  "lower_char c =
     (case map_of (zip ''ABCDEFGHIJKLMNOPQRSTUVWXYZ'' ''abcdefghijklmnopqrstuvwxyz'') c of
        None \<Rightarrow> c | Some l \<Rightarrow> l)"

definition lower :: "string \<Rightarrow> string" where
  "lower s = map lower_char s"

text \<open>\<open>str.strip()\<close>\<close>

definition strip :: "string \<Rightarrow> string" where
  "strip s = rev (dropWhile is_space (rev (dropWhile is_space s)))"

text \<open>\<open>str.startswith\<close> and \<open>str.endswith\<close>\<close>

definition startswith :: "string \<Rightarrow> string \<Rightarrow> bool" where
  "startswith s p = (take (length p) s = p)"

definition endswith :: "string \<Rightarrow> string \<Rightarrow> bool" where
  "endswith s p = (length p \<le> length s \<and> drop (length s - length p) s = p)"

text \<open>\<open>" ".join(xs)\<close>\<close>

fun join_space :: "string list \<Rightarrow> string" where
  "join_space [] = []"
| "join_space [x] = x"
| "join_space (x # y # ys) = x @ '' '' @ join_space (y # ys)"

text \<open>The value of one decimal digit, and of a string of decimal digits.\<close>

definition digit_val :: "char \<Rightarrow> nat" where
  "digit_val c =
     (case map_of (zip ''0123456789'' [0, 1, 2, 3, 4, 5, 6, 7, 8, 9]) c of
        None \<Rightarrow> 0 | Some d \<Rightarrow> d)"

definition nat_of_digits :: "string \<Rightarrow> nat" where
  "nat_of_digits ds = foldl (\<lambda>acc c. 10 * acc + digit_val c) 0 ds"

text \<open>\<open>str(n)\<close> for an integer: decimal digits, a minus sign for a negative one.\<close>

fun str_nat :: "nat \<Rightarrow> string" where
  "str_nat n =
     (if n < 10 then [''0123456789'' ! n]
      else str_nat (n div 10) @ [''0123456789'' ! (n mod 10)])"

declare str_nat.simps [simp del]

definition str_int :: "int \<Rightarrow> string" where
  "str_int i = (if i < 0 then ''-'' @ str_nat (nat (- i)) else str_nat (nat i))"

text \<open>
  \<open>int(s)\<close> on a string: surrounding whitespace is stripped, one sign is allowed, the
  digits may be grouped by single underscores. \<open>None\<close> is \<open>ValueError\<close>. The limit on
  the number of digits that newer interpreters impose is not modelled.
\<close>

fun digit_groups :: "string \<Rightarrow> bool \<Rightarrow> bool" where
  "digit_groups [] after_digit = after_digit"
| "digit_groups (c # cs) after_digit =
     (if is_digit c then digit_groups cs True
      else if c = CHR ''_'' \<and> after_digit then (cs \<noteq> [] \<and> is_digit (hd cs) \<and> digit_groups cs False)
      else False)"

definition int_of_unsigned :: "string \<Rightarrow> int option" where
  "int_of_unsigned s =
     (if digit_groups s False then Some (int (nat_of_digits (filter is_digit s))) else None)"

definition py_int :: "string \<Rightarrow> int option" where
  "py_int s =
     (case strip s of
        [] \<Rightarrow> None
      | c # cs \<Rightarrow>
          if c = CHR ''-'' then map_option uminus (int_of_unsigned cs)
          else if c = CHR ''+'' then int_of_unsigned cs
          else int_of_unsigned (c # cs))"

section \<open>Durations and instants\<close>

text \<open>
  A \<open>timedelta\<close> built by this program is a whole number of seconds; an instant is
  the number of seconds since the epoch (the fraction of a second of
  \<open>datetime.now\<close> is carried along unchanged by every operation here and left out).
  The constructor raises \<open>OverflowError\<close> when the normalised number of days leaves
  \<open>[-999999999, 999999999]\<close>, and adding a span to an instant raises it when the sum
  leaves the years 1 to 9999.
\<close>

datatype timedelta = Seconds int

fun total_seconds :: "timedelta \<Rightarrow> int" where
  "total_seconds (Seconds n) = n"

definition timedelta :: "int \<Rightarrow> int \<Rightarrow> int \<Rightarrow> int \<Rightarrow> pyerror + timedelta" where
  "timedelta days hours minutes seconds =
     (let t = ((days * 24 + hours) * 60 + minutes) * 60 + seconds
      in if t div 86400 < - 999999999 \<or> 999999999 < t div 86400 then Inl OverflowError
         else Inr (Seconds t))"

definition datetime_min :: int where
  "datetime_min = - 62135596800"

definition datetime_max :: int where
  "datetime_max = 253402300799"

definition datetime_add :: "int \<Rightarrow> timedelta \<Rightarrow> pyerror + int" where
  "datetime_add now d =
     (let t = now + total_seconds d
      in if t < datetime_min \<or> datetime_max < t then Inl OverflowError else Inr t)"

text \<open>
  The pattern of \<open>parse_duration\<close>, matched from the start of the string:
  \<open>^(\d+)\s*(s|sec|...|days)?$\<close>. Digits, whitespace and letters are disjoint classes
  and the pattern is anchored at both ends, so the only way to match is to take all
  leading digits as group 1, all whitespace after them, and the whole rest as group 2,
  which then has to be one of the alternatives (or absent when nothing is left).
  The result is the pair of groups, \<open>None\<close> when the pattern does not match.
\<close>

definition unit_tokens :: "string list" where
  "unit_tokens =
     [''s'', ''sec'', ''secs'', ''second'', ''seconds'',
      ''m'', ''min'', ''mins'', ''minute'', ''minutes'',
      ''h'', ''hr'', ''hrs'', ''hour'', ''hours'',
      ''d'', ''day'', ''days'']"

definition match_duration :: "string \<Rightarrow> (string \<times> string option) option" where
  "match_duration s0 =
     (let g1 = takeWhile is_digit s0;
          rest = dropWhile is_space (dropWhile is_digit s0)
      in if g1 = [] then None
         else if rest = [] then Some (g1, None)
         else if rest \<in> set unit_tokens then Some (g1, Some rest)
         else None)"

definition parse_duration :: "string option \<Rightarrow> pyerror + timedelta option" where
  "parse_duration s =
     (case s of
        None \<Rightarrow> Inr None
      | Some s \<Rightarrow>
          if s = [] then Inr None
          else
            (case match_duration (lower (strip s)) of
               None \<Rightarrow> Inr None
             | Some (g1, unit) \<Rightarrow>
                 (let val = int (nat_of_digits g1)
                  in case unit of
                       None \<Rightarrow> map_sum id Some (timedelta 0 0 0 val)
                     | Some un \<Rightarrow>
                         if startswith un ''s'' then map_sum id Some (timedelta 0 0 0 val)
                         else if startswith un ''m'' then map_sum id Some (timedelta 0 0 val 0)
                         else if startswith un ''h'' then map_sum id Some (timedelta 0 val 0 0)
                         else if startswith un ''d'' then map_sum id Some (timedelta val 0 0 0)
                         else map_sum id Some (timedelta 0 0 0 val))))"

section \<open>The persisted document\<close>

text \<open>
  The document \<open>STORE\<close>: \<open>{"welcomes": {chat_key: cfg}, "warns": {chat_key: {target_key: n}}}\<close>.
  A top-level key may be absent from a loaded document (the handlers test for it or call
  \<open>setdefault\<close>), as may the keys of a welcome configuration (they are read with \<open>get\<close>).
\<close>

record welcome_cfg =
  message :: "string option"
  channel_link :: "string option"
  last_welcome_message_id :: "int option"

record store =
  welcomes :: "(string \<rightharpoonup> welcome_cfg) option"
  warns :: "(string \<rightharpoonup> (string \<rightharpoonup> int)) option"

definition empty_store :: store where
  "empty_store = \<lparr>welcomes = Some Map.empty, warns = Some Map.empty\<rparr>"

text \<open>
  The file \<open>STORE_FILE\<close> holds a document or something \<open>json.load\<close> rejects; \<open>None\<close> is
  a file that does not exist. The JSON text of a document is not modelled: what
  \<open>json.dump\<close> writes for a document, \<open>json.load\<close> reads back as that document.
\<close>

datatype file_content = Document store | Garbage

text \<open>
  \<open>load_store\<close>; \<open>readable\<close> says whether opening and reading the file succeeds.
\<close>

definition load_store :: "bool \<Rightarrow> file_content option \<Rightarrow> store" where
  "load_store readable file =
     (case file of
        None \<Rightarrow> empty_store
      | Some c \<Rightarrow>
          if \<not> readable then empty_store
          else (case c of Document d \<Rightarrow> d | Garbage \<Rightarrow> empty_store))"

text \<open>
  What writing the file does: \<open>open(..., "w")\<close> may fail and leave the file as it was,
  \<open>json.dump\<close> may fail after the file was truncated, or the document is written.
\<close>

datatype write_result = Written | OpenFailed | DumpFailed

section \<open>Platform objects\<close>

text \<open>
  The chat member record returned by \<open>get_chat_member\<close>. The two capability flags are read
  with \<open>getattr(member, name, False)\<close> and then \<open>bool(...)\<close>, so an absent attribute and
  the value \<open>None\<close> are both \<open>None\<close> here.
\<close>

record member =
  status :: string
  can_restrict_members :: "bool option"
  can_delete_messages :: "bool option"

text \<open>\<open>bool(getattr(member, name, False))\<close>\<close>

definition truthy_flag :: "bool option \<Rightarrow> bool" where
  "truthy_flag f = (case f of None \<Rightarrow> False | Some b \<Rightarrow> b)"

text \<open>
  A \<open>ChatPermissions\<close> object is the keyword arguments it was built from, in order.
\<close>

type_synonym chat_permissions = "(string \<times> bool) list"

text \<open>
  Every call the handlers make on the outside world, in the order made. \<open>ReplyText\<close> is
  \<open>update.effective_message.reply_text\<close>, which is taken to succeed. The optional
  integer of a ban or a restriction is \<open>until_date\<close>; \<open>SaveStore\<close> is a call of
  \<open>save_store\<close> and \<open>Lookup\<close> a call of \<open>duckduckgo_search\<close>.
\<close>

datatype call =
    GetChatMember int int
  | ReplyText string
  | BanChatMember int int "int option"
  | UnbanChatMember int int
  | RestrictChatMember int int chat_permissions "int option"
  | DeleteMessage int int
  | SendMessage int string "string option"
  | SaveStore
  | Lookup string

text \<open>
  The outside world answers a call from the call and from everything that happened
  before it (the calls so far). \<open>Inl e\<close> is an exception whose text is \<open>e\<close>.
  \<open>duckduckgo_search\<close> stands for the source function of that name, which catches the
  failures of its request and returns a text. \<open>ip_query_re_search\<close> says whether
  \<open>IP_QUERY_RE.search\<close> finds a match, and \<open>iteration_order\<close> is the order in which
  a set of integers is iterated.
\<close>

record platform =
  get_chat_member :: "call list \<Rightarrow> int \<Rightarrow> int \<Rightarrow> string + member"
  ban_chat_member :: "call list \<Rightarrow> int \<Rightarrow> int \<Rightarrow> int option \<Rightarrow> string + unit"
  unban_chat_member :: "call list \<Rightarrow> int \<Rightarrow> int \<Rightarrow> string + unit"
  restrict_chat_member ::
    "call list \<Rightarrow> int \<Rightarrow> int \<Rightarrow> chat_permissions \<Rightarrow> int option \<Rightarrow> string + unit"
  delete_message :: "call list \<Rightarrow> int \<Rightarrow> int \<Rightarrow> string + unit"
  send_message :: "call list \<Rightarrow> int \<Rightarrow> string \<Rightarrow> string option \<Rightarrow> string + int"
  write_file :: "call list \<Rightarrow> write_result"
  duckduckgo_search :: "call list \<Rightarrow> string \<Rightarrow> string"
  ip_query_re_search :: "string \<Rightarrow> bool"
  iteration_order :: "int set \<Rightarrow> int list"
  signature_ok :: bool
  valid_params :: "string list"

text \<open>
  The last two fields describe the installed \<open>ChatPermissions\<close> class: whether
  \<open>inspect.signature\<close> succeeds on it, and the parameter names of its constructor.
\<close>

record replied_message =
  from_user_id :: int
  replied_text :: "string option"

text \<open>
  A newly joined user: \<open>mention_html\<close> is \<open>None\<close> when the method raises, \<open>full_name\<close>
  is \<open>None\<close> when the attribute is absent.
\<close>

record new_member =
  member_id :: int
  mention_html :: "string option"
  full_name :: "string option"

record update =
  effective_user :: "int option"
  effective_chat :: "int option"
  reply_to_message :: "replied_message option"
  has_message :: bool
  new_chat_members :: "new_member list"
  message_text :: "string option"

text \<open>The state of the process: the two module-level globals, the file, the calls made.\<close>

record world =
  STORE :: store
  BLACKLIST :: "int set"
  store_file :: "file_content option"
  calls :: "call list"

text \<open>How a handler ends: it returns, or an exception leaves it.\<close>

datatype outcome = Returned world | Raised pyerror world

fun world_of :: "outcome \<Rightarrow> world" where
  "world_of (Returned w) = w"
| "world_of (Raised e w) = w"


definition did :: "call \<Rightarrow> world \<Rightarrow> world" where
  "did c w = w\<lparr>calls := calls w @ [c]\<rparr>"

definition reply_text :: "string \<Rightarrow> call list \<Rightarrow> call list" where
  "reply_text s lg = lg @ [ReplyText s]"

definition reply :: "string \<Rightarrow> world \<Rightarrow> world" where
  "reply s w = w\<lparr>calls := reply_text s (calls w)\<rparr>"

text \<open>\<open>save_store(STORE)\<close>: a failure is logged and swallowed.\<close>

definition save_store :: "platform \<Rightarrow> world \<Rightarrow> world" where
  "save_store P w =
     (case write_file P (calls w) of
        Written \<Rightarrow> did SaveStore (w\<lparr>store_file := Some (Document (STORE w))\<rparr>)
      | OpenFailed \<Rightarrow> did SaveStore w
      | DumpFailed \<Rightarrow> did SaveStore (w\<lparr>store_file := Some Garbage\<rparr>))"

section \<open>Permission mapper\<close>

text \<open>
  The constructor \<open>ChatPermissions(**kwargs)\<close>: a keyword that is not a parameter of the
  installed class is a \<open>TypeError\<close>.
\<close>

definition ChatPermissions :: "platform \<Rightarrow> (string \<times> bool) list \<Rightarrow> pyerror + chat_permissions" where
  "ChatPermissions P kwargs =
     (if list_all (\<lambda>k. k \<in> set (valid_params P)) (map fst kwargs) then Inr kwargs
      else Inl TypeError)"

definition CANONICAL_PERMS :: "(string \<times> bool) list" where
  "CANONICAL_PERMS =
     [(''can_send_messages'', False),
      (''can_send_media_messages'', False),
      (''can_send_polls'', False),
      (''can_send_other_messages'', False),
      (''can_add_web_page_previews'', False),
      (''can_change_info'', False),
      (''can_invite_users'', False),
      (''can_pin_messages'', False)]"

text \<open>
  \<open>make_chat_permissions_from_dict\<close>. The dictionary is its items in order, with distinct
  keys. In the fallback only a \<open>TypeError\<close> of the direct construction is caught.
\<close>

definition alt_perms :: "(string \<times> bool) list \<Rightarrow> (string \<times> bool) list" where
  "alt_perms perms =
     map (\<lambda>(k, v).
            if k = ''can_send_media_messages'' \<and> ''can_send_other_messages'' \<notin> set (map fst perms)
            then (''can_send_other_messages'', v) else (k, v)) perms"

definition make_chat_permissions_from_dict ::
  "platform \<Rightarrow> (string \<times> bool) list \<Rightarrow> pyerror + chat_permissions" where
  "make_chat_permissions_from_dict P perms =
     (if signature_ok P then
        (let accepted = filter (\<lambda>(k, v). k \<in> set (valid_params P)) perms
         in case ChatPermissions P accepted of
              Inr p \<Rightarrow> Inr p
            | Inl e \<Rightarrow> ChatPermissions P [])
      else
        (case ChatPermissions P perms of
           Inr p \<Rightarrow> Inr p
         | Inl e \<Rightarrow>
             if e = TypeError then
               (case ChatPermissions P (alt_perms perms) of
                  Inr p \<Rightarrow> Inr p
                | Inl e' \<Rightarrow> ChatPermissions P [])
             else Inl e))"

definition build_full_mute_permissions :: "platform \<Rightarrow> pyerror + chat_permissions" where
  "build_full_mute_permissions P = make_chat_permissions_from_dict P CANONICAL_PERMS"

text \<open>The dictionary \<open>default_perms\<close> of \<open>unmute_cmd\<close>.\<close>

definition default_perms :: "(string \<times> bool) list" where
  "default_perms =
     [(''can_send_messages'', True),
      (''can_send_media_messages'', True),
      (''can_send_polls'', True),
      (''can_send_other_messages'', True),
      (''can_add_web_page_previews'', True),
      (''can_change_info'', False),
      (''can_invite_users'', True),
      (''can_pin_messages'', False)]"

section \<open>Authorization\<close>

definition is_bot_owner :: "int set \<Rightarrow> int \<Rightarrow> bool" where
  "is_bot_owner BOT_ADMINS user_id = (user_id \<in> BOT_ADMINS)"

text \<open>\<open>is_chat_admin\<close>: the boolean returned and the calls after it.\<close>

definition is_chat_admin :: "platform \<Rightarrow> int \<Rightarrow> int \<Rightarrow> call list \<Rightarrow> bool \<times> call list" where
  "is_chat_admin P chat_id user_id lg =
     (case get_chat_member P lg chat_id user_id of
        Inl e \<Rightarrow> (False, lg @ [GetChatMember chat_id user_id])
      | Inr m \<Rightarrow> (status m \<in> {''administrator'', ''creator''}, lg @ [GetChatMember chat_id user_id]))"

text \<open>
  \<open>check_issuer_permission\<close>: the boolean returned and the calls after it.
\<close>

definition check_issuer_permission ::
  "platform \<Rightarrow> update \<Rightarrow> string \<Rightarrow> call list \<Rightarrow> bool \<times> call list" where
  "check_issuer_permission P u need lg =
    (case (effective_user u, effective_chat u) of
       (Some user, Some chat) \<Rightarrow>
         (let lg1 = lg @ [GetChatMember chat user] in
          case get_chat_member P lg chat user of
            Inl e \<Rightarrow> (False, reply_text ''Failed to fetch your chat permissions.'' lg1)
          | Inr m \<Rightarrow>
              if status m = ''creator'' then (True, lg1)
              else if status m \<noteq> ''administrator'' then
                (False, reply_text ''You must be a chat admin to use this command.'' lg1)
              else
                (let can_restrict = truthy_flag (can_restrict_members m);
                     can_delete = truthy_flag (can_delete_messages m)
                 in if need \<in> {''ban'', ''kick'', ''mute''} \<and> \<not> can_restrict then
                      (False, reply_text
                        ''You don't have permission to restrict/ban members (can_restrict_members).'' lg1)
                    else if need = ''delete'' \<and> \<not> can_delete then
                      (False, reply_text
                        ''You don't have permission to delete messages (can_delete_messages).'' lg1)
                    else (True, lg1)))
     | _ \<Rightarrow> (False, reply_text ''Unable to determine user/chat.'' lg))"

section \<open>Moderation commands\<close>

text \<open>
  The block that opens \<open>kick_cmd\<close>, \<open>ban_cmd\<close>, \<open>unban_cmd\<close>, \<open>unmute_cmd\<close> and \<open>warn_cmd\<close>,
  the same in each but for the usage text: the target, or the text of the reply the
  command ends with.
\<close>

definition resolve_target :: "update \<Rightarrow> string list \<Rightarrow> string \<Rightarrow> string + int" where
  "resolve_target u args usage =
     (case reply_to_message u of
        Some r \<Rightarrow> Inr (from_user_id r)
      | None \<Rightarrow>
          (case args of
             [] \<Rightarrow> Inl usage
           | a # rest \<Rightarrow>
               (case py_int a of
                  None \<Rightarrow> Inl ''Provide numeric user id or reply.''
                | Some t \<Rightarrow> Inr t)))"

text \<open>The same block in \<open>mute_cmd\<close>, which also picks the duration argument.\<close>

definition resolve_mute :: "update \<Rightarrow> string list \<Rightarrow> string + (int \<times> string option)" where
  "resolve_mute u args =
     (case reply_to_message u of
        Some r \<Rightarrow> Inr (from_user_id r, (case args of [] \<Rightarrow> None | a # rest \<Rightarrow> Some a))
      | None \<Rightarrow>
          (case args of
             [] \<Rightarrow> Inl (''Usage: /mute <duration> (reply) OR /mute <user_id> <duration>'' @ [CHR 0x0A]
                        @ ''Examples: 10m, 2h'')
           | [a] \<Rightarrow> Inl (''Reply to a user's message and use /mute <duration>, ''
                        @ ''or use /mute <user_id> <duration>.'')
           | a # b # rest \<Rightarrow>
               (case py_int a of
                  None \<Rightarrow> Inl ''Provide a numeric user id or reply.''
                | Some t \<Rightarrow> Inr (t, Some b))))"

text \<open>
  In every command below \<open>chat.id\<close> is read only after the permission check has passed,
  and the check passes only when the update has a chat: the branch for a missing chat
  is never taken.
\<close>

definition kick_cmd :: "platform \<Rightarrow> update \<Rightarrow> string list \<Rightarrow> world \<Rightarrow> outcome" where
  "kick_cmd P u args w =
     (case check_issuer_permission P u ''kick'' (calls w) of
        (ok, lg) \<Rightarrow>
          (let w1 = w\<lparr>calls := lg\<rparr> in
           if \<not> ok then Returned w1
           else
             (case effective_chat u of
                None \<Rightarrow> Raised AttributeError w1
              | Some chat \<Rightarrow>
                  (case resolve_target u args ''Usage: /kick <user_id or reply>'' of
                     Inl msg \<Rightarrow> Returned (reply msg w1)
                   | Inr target \<Rightarrow>
                       (let w2 = did (BanChatMember chat target None) w1 in
                        case ban_chat_member P (calls w1) chat target None of
                          Inl e \<Rightarrow> Returned (reply (''Failed to kick: '' @ e) w2)
                        | Inr ok1 \<Rightarrow>
                            (let w3 = did (UnbanChatMember chat target) w2 in
                             case unban_chat_member P (calls w2) chat target of
                               Inl e \<Rightarrow> Returned (reply (''Failed to kick: '' @ e) w3)
                             | Inr ok2 \<Rightarrow>
                                 Returned (reply (''Kicked '' @ str_int target @ ''.'') w3)))))))"

text \<open>
  The expiry of \<open>ban_cmd\<close>: \<open>until\<close> stays \<open>None\<close> unless there is a second argument whose
  parsed duration is truthy, that is, not the zero span. Both \<open>parse_duration\<close> and the
  addition stand outside the \<open>try\<close>.
\<close>

definition ban_until :: "string list \<Rightarrow> int \<Rightarrow> pyerror + int option" where
  "ban_until args now =
     (if 2 \<le> length args then
        (case parse_duration (Some (args ! 1)) of
           Inl e \<Rightarrow> Inl e
         | Inr None \<Rightarrow> Inr None
         | Inr (Some dur) \<Rightarrow>
             if total_seconds dur \<noteq> 0 then map_sum id Some (datetime_add now dur)
             else Inr None)
      else Inr None)"

definition ban_cmd :: "platform \<Rightarrow> update \<Rightarrow> string list \<Rightarrow> int \<Rightarrow> world \<Rightarrow> outcome" where
  "ban_cmd P u args now w =
     (case check_issuer_permission P u ''ban'' (calls w) of
        (ok, lg) \<Rightarrow>
          (let w1 = w\<lparr>calls := lg\<rparr> in
           if \<not> ok then Returned w1
           else
             (case effective_chat u of
                None \<Rightarrow> Raised AttributeError w1
              | Some chat \<Rightarrow>
                  (case resolve_target u args ''Usage: /ban <user_id or reply> [duration]'' of
                     Inl msg \<Rightarrow> Returned (reply msg w1)
                   | Inr target \<Rightarrow>
                       (case ban_until args now of
                          Inl e \<Rightarrow> Raised e w1
                        | Inr until \<Rightarrow>
                            (let w2 = did (BanChatMember chat target until) w1 in
                             case ban_chat_member P (calls w1) chat target until of
                               Inl e \<Rightarrow> Returned (reply (''Failed to ban: '' @ e) w2)
                             | Inr ok1 \<Rightarrow>
                                 Returned (reply (''Banned '' @ str_int target @ ''.'') w2)))))))"

definition unban_cmd :: "platform \<Rightarrow> update \<Rightarrow> string list \<Rightarrow> world \<Rightarrow> outcome" where
  "unban_cmd P u args w =
     (case check_issuer_permission P u ''ban'' (calls w) of
        (ok, lg) \<Rightarrow>
          (let w1 = w\<lparr>calls := lg\<rparr> in
           if \<not> ok then Returned w1
           else
             (case effective_chat u of
                None \<Rightarrow> Raised AttributeError w1
              | Some chat \<Rightarrow>
                  (case resolve_target u args ''Usage: /unban <user_id or reply>'' of
                     Inl msg \<Rightarrow> Returned (reply msg w1)
                   | Inr target \<Rightarrow>
                       (let w2 = did (UnbanChatMember chat target) w1 in
                        case unban_chat_member P (calls w1) chat target of
                          Inl e \<Rightarrow> Returned (reply (''Failed to unban: '' @ e) w2)
                        | Inr ok1 \<Rightarrow>
                            Returned (reply (''Unbanned '' @ str_int target @ ''.'') w2))))))"

definition mute_cmd :: "platform \<Rightarrow> update \<Rightarrow> string list \<Rightarrow> int \<Rightarrow> world \<Rightarrow> outcome" where
  "mute_cmd P u args now w =
     (case check_issuer_permission P u ''mute'' (calls w) of
        (ok, lg) \<Rightarrow>
          (let w1 = w\<lparr>calls := lg\<rparr> in
           if \<not> ok then Returned w1
           else
             (case effective_chat u of
                None \<Rightarrow> Raised AttributeError w1
              | Some chat \<Rightarrow>
                  (case resolve_mute u args of
                     Inl msg \<Rightarrow> Returned (reply msg w1)
                   | Inr (target, dur_arg) \<Rightarrow>
                       (case parse_duration dur_arg of
                          Inl e \<Rightarrow> Raised e w1
                        | Inr None \<Rightarrow> Returned (reply ''Invalid duration. Examples: 10m, 2h'' w1)
                        | Inr (Some dur) \<Rightarrow>
                            if total_seconds dur = 0 then
                              Returned (reply ''Invalid duration. Examples: 10m, 2h'' w1)
                            else
                              (case datetime_add now dur of
                                 Inl e \<Rightarrow> Raised e w1
                               | Inr until \<Rightarrow>
                                   (case build_full_mute_permissions P of
                                      Inl e \<Rightarrow> Raised e w1
                                    | Inr perms \<Rightarrow>
                                        (let w2 = did (RestrictChatMember chat target perms (Some until)) w1 in
                                         case restrict_chat_member P (calls w1) chat target perms (Some until) of
                                           Inl e \<Rightarrow> Returned (reply (''Failed to mute: '' @ e) w2)
                                         | Inr ok1 \<Rightarrow>
                                             Returned (reply (''Muted '' @ str_int target @ '' for ''
                                               @ (case dur_arg of None \<Rightarrow> ''None'' | Some d \<Rightarrow> d) @ ''.'') w2)))))))))"

text \<open>The text of an exception of the interpreter, as \<open>str(e)\<close> in a reply; only its class is kept.\<close>

fun error_text :: "pyerror \<Rightarrow> string" where
  "error_text OverflowError = ''OverflowError''"
| "error_text AttributeError = ''AttributeError''"
| "error_text TypeError = ''TypeError''"
| "error_text ValueError = ''ValueError''"

definition unmute_cmd :: "platform \<Rightarrow> update \<Rightarrow> string list \<Rightarrow> world \<Rightarrow> outcome" where
  "unmute_cmd P u args w =
     (case check_issuer_permission P u ''mute'' (calls w) of
        (ok, lg) \<Rightarrow>
          (let w1 = w\<lparr>calls := lg\<rparr> in
           if \<not> ok then Returned w1
           else
             (case effective_chat u of
                None \<Rightarrow> Raised AttributeError w1
              | Some chat \<Rightarrow>
                  (case resolve_target u args ''Usage: /unmute <user_id or reply>'' of
                     Inl msg \<Rightarrow> Returned (reply msg w1)
                   | Inr target \<Rightarrow>
                       (case make_chat_permissions_from_dict P default_perms of
                          Inl e \<Rightarrow> Returned (reply (''Failed to unmute: '' @ error_text e) w1)
                        | Inr perms \<Rightarrow>
                            (let w2 = did (RestrictChatMember chat target perms None) w1 in
                             case restrict_chat_member P (calls w1) chat target perms None of
                               Inl e \<Rightarrow> Returned (reply (''Failed to unmute: '' @ e) w2)
                             | Inr ok1 \<Rightarrow>
                                 Returned (reply (''Unmuted '' @ str_int target @ ''.'') w2)))))))"

text \<open>The counter of a target in a chat, as \<open>warn_cmd\<close> reads it after its two \<open>setdefault\<close>.\<close>

definition chat_warns :: "store \<Rightarrow> string \<Rightarrow> (string \<rightharpoonup> int)" where
  "chat_warns st chat_key =
     (case warns st of
        None \<Rightarrow> Map.empty
      | Some ws \<Rightarrow> (case ws chat_key of None \<Rightarrow> Map.empty | Some m \<Rightarrow> m))"

definition add_warn :: "store \<Rightarrow> string \<Rightarrow> string \<Rightarrow> int \<times> store" where
  "add_warn st chat_key target_key =
     (let ws = (case warns st of None \<Rightarrow> Map.empty | Some ws \<Rightarrow> ws);
          m = (case ws chat_key of None \<Rightarrow> Map.empty | Some m \<Rightarrow> m);
          count = (case m target_key of None \<Rightarrow> 0 | Some c \<Rightarrow> c) + 1
      in (count, st\<lparr>warns := Some (ws(chat_key \<mapsto> m(target_key \<mapsto> count)))\<rparr>))"

definition warn_cmd :: "platform \<Rightarrow> update \<Rightarrow> string list \<Rightarrow> world \<Rightarrow> outcome" where
  "warn_cmd P u args w =
     (case check_issuer_permission P u ''kick'' (calls w) of
        (ok, lg) \<Rightarrow>
          (let w1 = w\<lparr>calls := lg\<rparr> in
           if \<not> ok then Returned w1
           else
             (case effective_chat u of
                None \<Rightarrow> Raised AttributeError w1
              | Some chat \<Rightarrow>
                  (case resolve_target u args ''Usage: /warn <user_id or reply>'' of
                     Inl msg \<Rightarrow> Returned (reply msg w1)
                   | Inr target \<Rightarrow>
                       (case add_warn (STORE w1) (str_int chat) (str_int target) of
                          (count, st) \<Rightarrow>
                            Returned (reply (''Warned '' @ str_int target @ '' ('' @ str_int count
                                             @ '' total).'')
                                        (save_store P (w1\<lparr>STORE := st\<rparr>))))))))"

section \<open>Welcome configuration\<close>

text \<open>\<open>list.index\<close> on an element that occurs in the list.\<close>

fun index_of :: "'a \<Rightarrow> 'a list \<Rightarrow> nat" where
  "index_of x [] = 0"
| "index_of x (y # ys) = (if x = y then 0 else Suc (index_of x ys))"

text \<open>
  The arguments of \<open>setwelcome_cmd\<close> without the first \<open>--channel <link>\<close>, and the link.
\<close>

definition split_channel :: "string list \<Rightarrow> string list \<times> string option" where
  "split_channel args =
     (if ''--channel'' \<in> set args then
        (let i = index_of ''--channel'' args
         in if i + 1 < length args then (take i args @ drop (i + 2) args, Some (args ! (i + 1)))
            else (args, None))
      else (args, None))"

definition set_welcome :: "store \<Rightarrow> string \<Rightarrow> welcome_cfg \<Rightarrow> store" where
  "set_welcome st chat_key cfg =
     (let ws = (case welcomes st of None \<Rightarrow> Map.empty | Some ws \<Rightarrow> ws)
      in st\<lparr>welcomes := Some (ws(chat_key \<mapsto> cfg))\<rparr>)"

definition setwelcome_cmd :: "platform \<Rightarrow> update \<Rightarrow> string list \<Rightarrow> world \<Rightarrow> outcome" where
  "setwelcome_cmd P u args w =
     (case (effective_chat u, effective_user u) of
        (Some chat, Some user) \<Rightarrow>
          (case is_chat_admin P chat user (calls w) of
             (ok, lg) \<Rightarrow>
               (let w1 = w\<lparr>calls := lg\<rparr> in
                if \<not> ok then
                  Returned (reply ''You must be a chat admin to set welcome message.'' w1)
                else if args = [] \<and> reply_to_message u = None then
                  Returned (reply
                    ''Usage: /setwelcome <text> [--channel <link>]. Use {user_mention} in text.'' w1)
                else
                  (case split_channel args of
                     (args', link) \<Rightarrow>
                       (let text0 = strip (join_space args');
                            text1 =
                              (if text0 = [] then
                                 (case reply_to_message u of
                                    None \<Rightarrow> text0
                                  | Some r \<Rightarrow>
                                      (case replied_text r of
                                         None \<Rightarrow> text0
                                       | Some t \<Rightarrow> if t = [] then text0 else strip t))
                               else text0)
                        in if text1 = [] then Returned (reply ''No welcome text provided.'' w1)
                           else
                             Returned (reply ''Welcome message saved for this chat.''
                               (save_store P
                                  (w1\<lparr>STORE := set_welcome (STORE w1) (str_int chat)
                                        \<lparr>message = Some text1, channel_link = link,
                                         last_welcome_message_id = None\<rparr>\<rparr>)))))))
      | _ \<Rightarrow> Raised AttributeError w)"

definition clearwelcome_cmd :: "platform \<Rightarrow> update \<Rightarrow> string list \<Rightarrow> world \<Rightarrow> outcome" where
  "clearwelcome_cmd P u args w =
     (case (effective_chat u, effective_user u) of
        (Some chat, Some user) \<Rightarrow>
          (case is_chat_admin P chat user (calls w) of
             (ok, lg) \<Rightarrow>
               (let w1 = w\<lparr>calls := lg\<rparr>;
                    chat_key = str_int chat
                in if \<not> ok then Returned (reply ''You must be a chat admin to clear welcome.'' w1)
                   else
                     (case welcomes (STORE w1) of
                        None \<Rightarrow> Returned (reply ''No welcome configured.'' w1)
                      | Some ws \<Rightarrow>
                          if chat_key \<in> dom ws then
                            Returned (reply ''Welcome cleared.''
                              (save_store P
                                 (w1\<lparr>STORE := (STORE w1)\<lparr>welcomes := Some (ws(chat_key := None))\<rparr>\<rparr>)))
                          else Returned (reply ''No welcome configured.'' w1))))
      | _ \<Rightarrow> Raised AttributeError w)"

section \<open>Welcome handler\<close>

text \<open>\<open>str.replace(old, new)\<close> for a pattern \<open>old\<close> that is not empty.\<close>

fun replace_all :: "string \<Rightarrow> string \<Rightarrow> string \<Rightarrow> string" where
  "replace_all [] old new = []"
| "replace_all (c # cs) old new =
     (if old \<noteq> [] \<and> startswith (c # cs) old
      then new @ replace_all (drop (length old - 1) cs) old new
      else c # replace_all cs old new)"

text \<open>The text and the parse mode of the welcome for one new member.\<close>

definition render_welcome :: "string \<Rightarrow> string option \<Rightarrow> new_member \<Rightarrow> string \<times> string option" where
  "render_welcome template channel m =
     (let (mention, parse_mode) =
            (case mention_html m of
               Some h \<Rightarrow> (h, Some ''HTML'')
             | None \<Rightarrow>
                 ((case full_name m of None \<Rightarrow> str_int (member_id m) | Some n \<Rightarrow> n), None));
          text0 = replace_all template ''{user_mention}'' mention;
          text1 =
            (case channel of
               None \<Rightarrow> text0
             | Some ch \<Rightarrow>
                 if ch = [] then text0
                 else (if endswith text0 [CHR 0x0A] then text0 else text0 @ [CHR 0x0A])
                      @ [CHR 0x0A] @ ''Channel: '' @ ch)
      in (text1, parse_mode))"

text \<open>
  \<open>STORE["welcomes"][chat_key]["last_welcome_message_id"] = message_id\<close>; a missing key
  raises inside the \<open>try\<close> of the handler, which swallows it.
\<close>

definition set_pointer :: "store \<Rightarrow> string \<Rightarrow> int \<Rightarrow> store option" where
  "set_pointer st chat_key message_id =
     (case welcomes st of
        None \<Rightarrow> None
      | Some ws \<Rightarrow>
          (case ws chat_key of
             None \<Rightarrow> None
           | Some cfg \<Rightarrow>
               Some (st\<lparr>welcomes :=
                         Some (ws(chat_key \<mapsto> cfg\<lparr>last_welcome_message_id := Some message_id\<rparr>))\<rparr>)))"

text \<open>
  The body of the loop over the new members, for one member. \<open>template\<close>, \<open>channel\<close>
  and \<open>last_msg_id\<close> were read from the configuration before the loop and are not read
  again. The outcome of the deletion is ignored; a failed send is logged and nothing
  else happens.
\<close>

definition welcome_step ::
  "platform \<Rightarrow> int \<Rightarrow> string \<Rightarrow> string option \<Rightarrow> int option \<Rightarrow> new_member \<Rightarrow> world \<Rightarrow> world"
where
  "welcome_step P chat template channel last_msg_id m w =
     (case render_welcome template channel m of
        (text, parse_mode) \<Rightarrow>
          (let w1 = (case last_msg_id of
                       None \<Rightarrow> w
                     | Some i \<Rightarrow> if i = 0 then w else did (DeleteMessage chat i) w);
               w2 = did (SendMessage chat text parse_mode) w1
           in case send_message P (calls w1) chat text parse_mode of
                Inl e \<Rightarrow> w2
              | Inr message_id \<Rightarrow>
                  (case set_pointer (STORE w2) (str_int chat) message_id of
                     None \<Rightarrow> w2
                   | Some st \<Rightarrow> save_store P (w2\<lparr>STORE := st\<rparr>))))"

fun welcome_loop ::
  "platform \<Rightarrow> int \<Rightarrow> string \<Rightarrow> string option \<Rightarrow> int option \<Rightarrow> new_member list \<Rightarrow> world \<Rightarrow> world"
where
  "welcome_loop P chat template channel last_msg_id [] w = w"
| "welcome_loop P chat template channel last_msg_id (m # ms) w =
     welcome_loop P chat template channel last_msg_id ms
       (welcome_step P chat template channel last_msg_id m w)"

definition welcome_handler :: "platform \<Rightarrow> update \<Rightarrow> world \<Rightarrow> outcome" where
  "welcome_handler P u w =
     (if \<not> has_message u then Returned w
      else if new_chat_members u = [] then Returned w
      else
        (case effective_chat u of
           None \<Rightarrow> Returned w
         | Some chat \<Rightarrow>
             (case welcomes (STORE w) of
                None \<Rightarrow> Returned w
              | Some ws \<Rightarrow>
                  (case ws (str_int chat) of
                     None \<Rightarrow> Returned w
                   | Some cfg \<Rightarrow>
                       Returned
                         (welcome_loop P chat
                            (case message cfg of None \<Rightarrow> [] | Some t \<Rightarrow> t)
                            (channel_link cfg) (last_welcome_message_id cfg)
                            (new_chat_members u) w)))))"

section \<open>Search, blacklist and the remaining handlers\<close>

definition is_ip_query :: "platform \<Rightarrow> string option \<Rightarrow> bool" where
  "is_ip_query P text =
     (case text of None \<Rightarrow> False | Some t \<Rightarrow> t \<noteq> [] \<and> ip_query_re_search P t)"

definition ip_refusal :: string where
  "ip_refusal = ''I'' @ [CHR 0xE2, CHR 0x80, CHR 0x99]
                @ ''m not allowed to share IP address information.''"

definition start :: "platform \<Rightarrow> update \<Rightarrow> string list \<Rightarrow> world \<Rightarrow> outcome" where
  "start P u args w =
     Returned (reply (''Hi! I am a DuckDuckGo web search and group moderation bot ''
                      @ ''created by DresOS.'') w)"

definition search_cmd :: "platform \<Rightarrow> update \<Rightarrow> string list \<Rightarrow> world \<Rightarrow> outcome" where
  "search_cmd P u args w =
     (case effective_user u of
        None \<Rightarrow> Raised AttributeError w
      | Some user_id \<Rightarrow>
          if user_id \<in> BLACKLIST w then Returned w
          else if args = [] then Returned (reply ''Usage: /search <query>'' w)
          else
            (let query = join_space args in
             if is_ip_query P (Some query) then Returned (reply ip_refusal w)
             else
               Returned (reply (duckduckgo_search P (calls w) query) (did (Lookup query) w))))"

definition blacklist_cmd :: "int set \<Rightarrow> platform \<Rightarrow> update \<Rightarrow> string list \<Rightarrow> world \<Rightarrow> outcome" where
  "blacklist_cmd BOT_ADMINS P u args w =
     (case effective_user u of
        None \<Rightarrow> Raised AttributeError w
      | Some requester \<Rightarrow>
          if \<not> is_bot_owner BOT_ADMINS requester then
            Returned (reply ''You are not authorized to use this command.'' w)
          else
            (case args of
               [] \<Rightarrow> Returned (reply ''Usage: /blacklist <user_id>'' w)
             | a # rest \<Rightarrow>
                 (case py_int a of
                    None \<Rightarrow> Returned (reply ''User id must be integer.'' w)
                  | Some uid \<Rightarrow>
                      Returned (reply (''User '' @ str_int uid @ '' blacklisted.'')
                                  (w\<lparr>BLACKLIST := insert uid (BLACKLIST w)\<rparr>)))))"

definition unblacklist_cmd :: "int set \<Rightarrow> platform \<Rightarrow> update \<Rightarrow> string list \<Rightarrow> world \<Rightarrow> outcome" where
  "unblacklist_cmd BOT_ADMINS P u args w =
     (case effective_user u of
        None \<Rightarrow> Raised AttributeError w
      | Some requester \<Rightarrow>
          if \<not> is_bot_owner BOT_ADMINS requester then
            Returned (reply ''You are not authorized to use this command.'' w)
          else
            (case args of
               [] \<Rightarrow> Returned (reply ''Usage: /unblacklist <user_id>'' w)
             | a # rest \<Rightarrow>
                 (case py_int a of
                    None \<Rightarrow> Returned (reply ''User id must be integer.'' w)
                  | Some uid \<Rightarrow>
                      Returned (reply (''User '' @ str_int uid @ '' removed from blacklist.'')
                                  (w\<lparr>BLACKLIST := BLACKLIST w - {uid}\<rparr>)))))"

text \<open>\<open>", ".join(xs)\<close>\<close>

fun join_comma :: "string list \<Rightarrow> string" where
  "join_comma [] = []"
| "join_comma [x] = x"
| "join_comma (x # y # ys) = x @ '', '' @ join_comma (y # ys)"

definition list_blacklist_cmd ::
  "int set \<Rightarrow> platform \<Rightarrow> update \<Rightarrow> string list \<Rightarrow> world \<Rightarrow> outcome" where
  "list_blacklist_cmd BOT_ADMINS P u args w =
     (case effective_user u of
        None \<Rightarrow> Raised AttributeError w
      | Some requester \<Rightarrow>
          if \<not> is_bot_owner BOT_ADMINS requester then
            Returned (reply ''You are not authorized to use this command.'' w)
          else if BLACKLIST w \<noteq> {} then
            Returned (reply (''Blacklist: ''
                             @ join_comma (map str_int (iteration_order P (BLACKLIST w)))) w)
          else Returned (reply ''Blacklist empty.'' w))"

definition help_text :: string where
  "help_text =
     ''Commands:'' @ [CHR 0x0A]
     @ ''/search <query>'' @ [CHR 0x0A]
     @ ''/kick <user_id or reply>'' @ [CHR 0x0A]
     @ ''/ban <user_id or reply> [duration]'' @ [CHR 0x0A]
     @ ''/unban <user_id or reply>'' @ [CHR 0x0A]
     @ ''/mute <duration> (reply) OR /mute <user_id> <duration>'' @ [CHR 0x0A]
     @ ''/unmute <user_id or reply>'' @ [CHR 0x0A]
     @ ''/warn <user_id or reply>'' @ [CHR 0x0A]
     @ ''/setwelcome <text> [--channel <link>] (use {user_mention})'' @ [CHR 0x0A]
     @ ''/clearwelcome'' @ [CHR 0x0A]"

definition help_cmd :: "platform \<Rightarrow> update \<Rightarrow> string list \<Rightarrow> world \<Rightarrow> outcome" where
  "help_cmd P u args w = Returned (reply help_text w)"

definition block_ip_handler :: "platform \<Rightarrow> update \<Rightarrow> world \<Rightarrow> outcome" where
  "block_ip_handler P u w =
     (if has_message u \<and> message_text u \<noteq> None \<and> message_text u \<noteq> Some []
         \<and> is_ip_query P (message_text u)
      then Returned (reply ip_refusal w) else Returned w)"

definition ignore_non_commands :: "platform \<Rightarrow> update \<Rightarrow> world \<Rightarrow> outcome" where
  "ignore_non_commands P u w = Returned w"

section \<open>Dispatch\<close>

text \<open>
  The events the handlers of \<open>main\<close> are registered for: a command with its arguments
  and the time of its handling, a status update about new chat members, and a text
  message that is not a command. A command without a handler is dropped.
\<close>

datatype event =
    Command string update "string list" int
  | NewChatMembers update
  | TextMessage update

definition run_command ::
  "int set \<Rightarrow> platform \<Rightarrow> string \<Rightarrow> update \<Rightarrow> string list \<Rightarrow> int \<Rightarrow> world \<Rightarrow> outcome" where
  "run_command BOT_ADMINS P name u args now w =
     (if name = ''start'' then start P u args w
      else if name = ''search'' then search_cmd P u args w
      else if name = ''blacklist'' then blacklist_cmd BOT_ADMINS P u args w
      else if name = ''unblacklist'' then unblacklist_cmd BOT_ADMINS P u args w
      else if name = ''list_blacklist'' then list_blacklist_cmd BOT_ADMINS P u args w
      else if name = ''kick'' then kick_cmd P u args w
      else if name = ''ban'' then ban_cmd P u args now w
      else if name = ''unban'' then unban_cmd P u args w
      else if name = ''mute'' then mute_cmd P u args now w
      else if name = ''unmute'' then unmute_cmd P u args w
      else if name = ''warn'' then warn_cmd P u args w
      else if name = ''setwelcome'' then setwelcome_cmd P u args w
      else if name = ''clearwelcome'' then clearwelcome_cmd P u args w
      else if name = ''help'' then help_cmd P u args w
      else Returned w)"

fun handle :: "int set \<Rightarrow> platform \<Rightarrow> event \<Rightarrow> world \<Rightarrow> outcome" where
  "handle BOT_ADMINS P (Command name u args now) w = run_command BOT_ADMINS P name u args now w"
| "handle BOT_ADMINS P (NewChatMembers u) w = welcome_handler P u w"
| "handle BOT_ADMINS P (TextMessage u) w =
     (case block_ip_handler P u w of
        Returned w1 \<Rightarrow> ignore_non_commands P u w1
      | Raised e w1 \<Rightarrow> ignore_non_commands P u w1)"

section \<open>Sample inputs\<close>

text \<open>
  A platform on which every mutation succeeds, nothing can be deleted, every sent message
  gets a fresh id and the file can be written; the role lookup answers \<open>r\<close>.
\<close>

definition demo_platform :: "(string + member) \<Rightarrow> platform" where
  "demo_platform r =
     \<lparr>get_chat_member = (\<lambda>lg c u. r),
      ban_chat_member = (\<lambda>lg c t un. Inr ()),
      unban_chat_member = (\<lambda>lg c t. Inr ()),
      restrict_chat_member = (\<lambda>lg c t p un. Inr ()),
      delete_message = (\<lambda>lg c i. Inl ''message to delete not found''),
      send_message = (\<lambda>lg c t pm. Inr (int (length lg) + 100)),
      write_file = (\<lambda>lg. Written),
      duckduckgo_search = (\<lambda>lg q. ''No results found.''),
      ip_query_re_search = (\<lambda>t. False),
      iteration_order = sorted_list_of_set,
      signature_ok = True,
      valid_params = map fst CANONICAL_PERMS\<rparr>"

definition demo_update :: update where
  "demo_update =
     \<lparr>effective_user = Some 7, effective_chat = Some (- 1001),
      reply_to_message = None, has_message = True, new_chat_members = [],
      message_text = None\<rparr>"

definition admin_member :: "bool \<Rightarrow> bool \<Rightarrow> member" where
  "admin_member r d =
     \<lparr>status = ''administrator'', can_restrict_members = Some r, can_delete_messages = Some d\<rparr>"

definition demo_world :: world where
  "demo_world = \<lparr>STORE = empty_store, BLACKLIST = {}, store_file = None, calls = []\<rparr>"

definition creator_member :: member where
  "creator_member = \<lparr>status = ''creator'', can_restrict_members = None, can_delete_messages = None\<rparr>"

definition demo_cfg :: welcome_cfg where
  "demo_cfg = \<lparr>message = Some ''Welcome {user_mention}!'', channel_link = None,
                last_welcome_message_id = None\<rparr>"

definition demo_store :: store where
  "demo_store =
     \<lparr>welcomes = Some [''-1001'' \<mapsto> demo_cfg, ''55'' \<mapsto> demo_cfg\<lparr>last_welcome_message_id := Some 12\<rparr>],
      warns = Some [''-1001'' \<mapsto> [''42'' \<mapsto> 2, ''43'' \<mapsto> 1], ''55'' \<mapsto> [''42'' \<mapsto> 7]]\<rparr>"

section \<open>Notions used by the properties\<close>

text \<open>
  The target as the specification words it: the author of the replied-to message, else
  the first argument read as an integer, else none.
\<close>

definition spec_resolve_target :: "update \<Rightarrow> string list \<Rightarrow> int option" where
  "spec_resolve_target u args =
     (case reply_to_message u of
        Some r \<Rightarrow> Some (from_user_id r)
      | None \<Rightarrow> (case args of [] \<Rightarrow> None | a # rest \<Rightarrow> py_int a))"





text \<open>The warn counter of a target in a chat; a pair never warned counts zero.\<close>

definition warn_count :: "store \<Rightarrow> int \<Rightarrow> int \<Rightarrow> int" where
  "warn_count st chat target =
     (case chat_warns st (str_int chat) (str_int target) of None \<Rightarrow> 0 | Some n \<Rightarrow> n)"

text \<open>
  The grammar as the specification words it: an integer magnitude, optionally followed
  by a supported unit token in any case, and nothing else.
\<close>

definition spec_duration_grammar :: "string \<Rightarrow> bool" where
  "spec_duration_grammar s =
     (let ds = takeWhile is_digit s; un = dropWhile is_digit s
      in ds \<noteq> [] \<and> (un = [] \<or> lower un \<in> set unit_tokens))"

text \<open>The seconds in one unit, chosen by the first letter of the token; seconds without one.\<close>

definition first_letter_seconds :: "string \<Rightarrow> int" where
  "first_letter_seconds x =
     (case x of
        [] \<Rightarrow> 1
      | c # cs \<Rightarrow>
          if c = CHR ''s'' then 1
          else if c = CHR ''m'' then 60
          else if c = CHR ''h'' then 3600
          else if c = CHR ''d'' then 86400
          else 1)"

definition unit_seconds :: "string \<Rightarrow> int" where
  "unit_seconds un = first_letter_seconds (lower un)"

definition spec_duration_span :: "string \<Rightarrow> timedelta" where
  "spec_duration_span s =
     Seconds (int (nat_of_digits (takeWhile is_digit s)) * unit_seconds (dropWhile is_digit s))"

text \<open>
  The grammar the code accepts: whitespace around the text and between the magnitude
  and the token is allowed.
\<close>

definition duration_grammar :: "string \<Rightarrow> bool" where
  "duration_grammar s =
     (let t = strip s; ds = takeWhile is_digit t;
          un = dropWhile is_space (dropWhile is_digit t)
      in ds \<noteq> [] \<and> (un = [] \<or> lower un \<in> set unit_tokens))"

definition duration_span :: "string \<Rightarrow> timedelta" where
  "duration_span s =
     (let t = strip s
      in Seconds (int (nat_of_digits (takeWhile is_digit t))
                  * unit_seconds (dropWhile is_space (dropWhile is_digit t))))"

text \<open>A span that a \<open>timedelta\<close> can hold.\<close>

definition representable :: "timedelta \<Rightarrow> bool" where
  "representable d = (- 999999999 \<le> total_seconds d div 86400 \<and> total_seconds d div 86400 \<le> 999999999)"

section \<open>Properties: authorization\<close>

text \<open>
  C1. For a needed capability among kick, ban, mute and delete, on an update that has a
  user and a chat: a failed role lookup denies; a creator is allowed whatever the flags;
  any other status than administrator denies; an administrator without
  \<open>can_restrict_members\<close> is denied ban, kick and mute with a reply naming that flag; an
  administrator without \<open>can_delete_messages\<close> is denied delete with a reply naming
  that flag, whatever \<open>can_restrict_members\<close> is; otherwise the check allows.
\<close>

theorem check_issuer_permission_decision:
  assumes "effective_user u = Some user" and "effective_chat u = Some chat"
    and "need \<in> {''kick'', ''ban'', ''mute'', ''delete''}"
  shows
    "(\<forall>e. get_chat_member P lg chat user = Inl e \<longrightarrow>
        check_issuer_permission P u need lg =
          (False, lg @ [GetChatMember chat user,
                        ReplyText ''Failed to fetch your chat permissions.'']))
   \<and> (\<forall>m. get_chat_member P lg chat user = Inr m \<and> status m = ''creator'' \<longrightarrow>
        check_issuer_permission P u need lg = (True, lg @ [GetChatMember chat user]))
   \<and> (\<forall>m. get_chat_member P lg chat user = Inr m \<and> status m \<noteq> ''creator''
          \<and> status m \<noteq> ''administrator'' \<longrightarrow>
        check_issuer_permission P u need lg =
          (False, lg @ [GetChatMember chat user,
                        ReplyText ''You must be a chat admin to use this command.'']))
   \<and> (\<forall>m. get_chat_member P lg chat user = Inr m \<and> status m = ''administrator''
          \<and> need \<in> {''ban'', ''kick'', ''mute''} \<and> \<not> truthy_flag (can_restrict_members m) \<longrightarrow>
        check_issuer_permission P u need lg =
          (False, lg @ [GetChatMember chat user,
             ReplyText ''You don't have permission to restrict/ban members (can_restrict_members).'']))
   \<and> (\<forall>m. get_chat_member P lg chat user = Inr m \<and> status m = ''administrator''
          \<and> need = ''delete'' \<and> \<not> truthy_flag (can_delete_messages m) \<longrightarrow>
        check_issuer_permission P u need lg =
          (False, lg @ [GetChatMember chat user,
             ReplyText ''You don't have permission to delete messages (can_delete_messages).'']))
   \<and> (\<forall>m. get_chat_member P lg chat user = Inr m \<and> status m = ''administrator''
          \<and> (need \<in> {''ban'', ''kick'', ''mute''} \<longrightarrow> truthy_flag (can_restrict_members m))
          \<and> (need = ''delete'' \<longrightarrow> truthy_flag (can_delete_messages m)) \<longrightarrow>
        check_issuer_permission P u need lg = (True, lg @ [GetChatMember chat user]))"
  using assms
  by (auto simp: check_issuer_permission_def reply_text_def Let_def)

theorem check_issuer_permission_decision_witness:
  "check_issuer_permission (demo_platform (Inr (admin_member False True))) demo_update ''ban'' []
     = (False, [GetChatMember (- 1001) 7,
          ReplyText ''You don't have permission to restrict/ban members (can_restrict_members).''])
   \<and> check_issuer_permission (demo_platform (Inr (admin_member False True))) demo_update ''delete'' []
     = (True, [GetChatMember (- 1001) 7])"
  using check_issuer_permission_decision
          [of demo_update 7 "- 1001" "''ban''" "demo_platform (Inr (admin_member False True))" "[]"]
        check_issuer_permission_decision
          [of demo_update 7 "- 1001" "''delete''" "demo_platform (Inr (admin_member False True))" "[]"]
  by (simp add: demo_update_def demo_platform_def admin_member_def truthy_flag_def)

section \<open>Properties: search\<close>

text \<open>
  C10. A search command whose issuer is in the blacklist returns at once: the world is
  left as it was, so no reply is sent and no lookup is made.
\<close>

theorem search_cmd_blacklisted:
  "effective_user u = Some user_id \<Longrightarrow> user_id \<in> BLACKLIST w \<Longrightarrow> search_cmd P u args w = Returned w"
  by (simp add: search_cmd_def)

theorem search_cmd_blacklisted_witness:
  "search_cmd (demo_platform (Inr creator_member)) demo_update [''what'', ''is'', ''hol'']
     (demo_world\<lparr>BLACKLIST := {7}\<rparr>) = Returned (demo_world\<lparr>BLACKLIST := {7}\<rparr>)"
  using search_cmd_blacklisted
    [of demo_update 7 "demo_world\<lparr>BLACKLIST := {7}\<rparr>" "demo_platform (Inr creator_member)"
        "[''what'', ''is'', ''hol'']"]
  by (simp add: demo_update_def demo_world_def)

lemma search_not_blacklisted_example:
  "search_cmd (demo_platform (Inr creator_member)) demo_update [''what'', ''is'', ''hol''] demo_world
   = Returned (demo_world\<lparr>calls := [Lookup ''what is hol'', ReplyText ''No results found.'']\<rparr>)"
  by (simp add: search_cmd_def demo_update_def demo_world_def demo_platform_def is_ip_query_def
      reply_def reply_text_def did_def)

section \<open>Properties: clearing the welcome\<close>

text \<open>
  C8. When an administrator or creator clears the welcome of a chat twice in a row, the
  second run returns without an exception, removes nothing and writes nothing: all it
  adds to the world is the role lookup and the notice that no welcome is configured.
\<close>

theorem clearwelcome_twice:
  assumes "effective_chat u = Some chat" and "effective_user u = Some user"
    and "get_chat_member P (calls w) chat user = Inr m1"
    and "status m1 \<in> {''administrator'', ''creator''}"
    and "w1 = world_of (clearwelcome_cmd P u args w)"
    and "get_chat_member P (calls w1) chat user = Inr m2"
    and "status m2 \<in> {''administrator'', ''creator''}"
  shows "clearwelcome_cmd P u args2 w1 =
           Returned (w1\<lparr>calls := calls w1 @ [GetChatMember chat user,
                                               ReplyText ''No welcome configured.'']\<rparr>)"
proof -
  have "\<forall>ws. welcomes (STORE w1) = Some ws \<longrightarrow> str_int chat \<notin> dom ws"
    using assms(1-5)
    by (auto simp: clearwelcome_cmd_def is_chat_admin_def Let_def reply_def save_store_def did_def
        split: option.splits write_result.splits if_splits)
  then show ?thesis
    using assms(1,2,6,7)
    by (auto simp: clearwelcome_cmd_def is_chat_admin_def Let_def reply_def reply_text_def
        split: option.splits)
qed

lemma str_int_m1001: "str_int (- 1001) = ''-1001''"
  by (simp add: str_int_def str_nat.simps)

theorem clearwelcome_twice_witness:
  "clearwelcome_cmd (demo_platform (Inr creator_member)) demo_update []
     (world_of (clearwelcome_cmd (demo_platform (Inr creator_member)) demo_update []
        (demo_world\<lparr>STORE := demo_store\<rparr>)))
   = Returned
       ((world_of (clearwelcome_cmd (demo_platform (Inr creator_member)) demo_update []
          (demo_world\<lparr>STORE := demo_store\<rparr>)))
        \<lparr>calls := [GetChatMember (- 1001) 7, SaveStore, ReplyText ''Welcome cleared.'',
                   GetChatMember (- 1001) 7, ReplyText ''No welcome configured.'']\<rparr>)"
proof -
  let ?P = "demo_platform (Inr creator_member)"
  let ?w = "demo_world\<lparr>STORE := demo_store\<rparr>"
  have c: "calls (world_of (clearwelcome_cmd ?P demo_update [] ?w))
           = [GetChatMember (- 1001) 7, SaveStore, ReplyText ''Welcome cleared.'']"
    by (simp add: clearwelcome_cmd_def demo_update_def demo_platform_def is_chat_admin_def
        creator_member_def demo_world_def demo_store_def str_int_m1001 Let_def reply_def
        reply_text_def save_store_def did_def)
  have g: "\<And>lg. get_chat_member ?P lg (- 1001) 7 = Inr creator_member"
    by (simp add: demo_platform_def)
  show ?thesis
    using clearwelcome_twice [of demo_update "- 1001" 7 ?P ?w creator_member
        "world_of (clearwelcome_cmd ?P demo_update [] ?w)" "[]" creator_member "[]"]
    by (simp add: g c) (simp add: demo_update_def creator_member_def)
qed

section \<open>Properties: the persisted document\<close>

text \<open>
  C9. When the file can be written and read, loading after a save gives back the saved
  document, whatever welcomes and warn counters it holds.
\<close>

theorem save_then_load:
  "write_file P (calls w) = Written \<Longrightarrow>
     load_store True (store_file (save_store P w)) = STORE w"
  by (simp add: save_store_def load_store_def did_def)

theorem save_then_load_witness:
  "load_store True
     (store_file (save_store (demo_platform (Inr creator_member)) (demo_world\<lparr>STORE := demo_store\<rparr>)))
   = demo_store"
  using save_then_load [of "demo_platform (Inr creator_member)" "demo_world\<lparr>STORE := demo_store\<rparr>"]
  by (simp add: demo_platform_def demo_world_def)

section \<open>Properties: permission mapper\<close>










section \<open>Properties: target resolution\<close>


lemma resolve_target_spec:
  "resolve_target u args usage = Inr t \<longleftrightarrow> spec_resolve_target u args = Some t"
  by (auto simp: resolve_target_def spec_resolve_target_def split: option.splits list.splits)













lemma calls_save_store: "calls (save_store P w) = calls w @ [SaveStore]"
  by (simp add: save_store_def did_def split: write_result.splits)

lemma STORE_save_store: "STORE (save_store P w) = STORE w"
  by (simp add: save_store_def did_def split: write_result.splits)

lemma BLACKLIST_save_store: "BLACKLIST (save_store P w) = BLACKLIST w"
  by (simp add: save_store_def did_def split: write_result.splits)









lemma py_int_42: "py_int ''42'' = Some 42"
  by (simp add: py_int_def strip_def is_space_def int_of_unsigned_def is_digit_def
      nat_of_digits_def digit_val_def)

lemma demo_check:
  "check_issuer_permission (demo_platform (Inr creator_member)) demo_update need []
     = (True, [GetChatMember (- 1001) 7])"
  by (simp add: check_issuer_permission_def demo_platform_def demo_update_def creator_member_def)


section \<open>Properties: warn counters\<close>

lemma digit_val_nth: "d < 10 \<Longrightarrow> digit_val (''0123456789'' ! d) = d"
proof -
  assume "d < 10"
  then have "d \<in> {0, 1, 2, 3, 4, 5, 6, 7, 8, 9}" by auto
  then show ?thesis by (auto simp: digit_val_def)
qed

lemma is_digit_nth: "d < 10 \<Longrightarrow> is_digit (''0123456789'' ! d)"
proof -
  assume "d < 10"
  then have "d \<in> {0, 1, 2, 3, 4, 5, 6, 7, 8, 9}" by auto
  then show ?thesis by (auto simp: is_digit_def)
qed

lemma nat_of_digits_snoc:
  "nat_of_digits (ds @ [c]) = 10 * nat_of_digits ds + digit_val c"
  by (simp add: nat_of_digits_def)

lemma nat_of_digits_str_nat: "nat_of_digits (str_nat n) = n"
proof (induction n rule: str_nat.induct)
  case (1 n)
  show ?case
  proof (cases "n < 10")
    case True
    then show ?thesis
      by (subst str_nat.simps) (simp add: nat_of_digits_def digit_val_nth)
  next
    case False
    then have "nat_of_digits (str_nat (n div 10)) = n div 10" using 1 by simp
    with False show ?thesis
      by (subst str_nat.simps) (simp add: nat_of_digits_snoc digit_val_nth)
  qed
qed

lemma str_nat_digits: "str_nat n \<noteq> [] \<and> list_all is_digit (str_nat n)"
proof (induction n rule: str_nat.induct)
  case (1 n)
  show ?case
  proof (cases "n < 10")
    case True
    then show ?thesis by (subst (1 2) str_nat.simps) (simp add: is_digit_nth)
  next
    case False
    with 1 show ?thesis by (subst (1 2) str_nat.simps) (simp add: is_digit_nth)
  qed
qed

lemma str_nat_inj: "str_nat m = str_nat n \<Longrightarrow> m = n"
  by (metis nat_of_digits_str_nat)

lemma str_nat_no_minus: "str_nat n \<noteq> CHR ''-'' # cs"
proof
  assume a: "str_nat n = CHR ''-'' # cs"
  have "list_all is_digit (str_nat n)" using str_nat_digits by blast
  with a have "is_digit CHR ''-''" by simp
  then show False by (simp add: is_digit_def)
qed

lemma str_int_inj: "str_int i = str_int j \<Longrightarrow> i = j"
proof -
  assume a: "str_int i = str_int j"
  show ?thesis
  proof (cases "i < 0")
    case True
    show ?thesis
    proof (cases "j < 0")
      case True
      with \<open>i < 0\<close> a have "nat (- i) = nat (- j)"
        by (auto simp: str_int_def dest: str_nat_inj)
      with True \<open>i < 0\<close> show ?thesis by simp
    next
      case False
      with True a show ?thesis
        using str_nat_no_minus [of "nat j" "str_nat (nat (- i))"] by (simp add: str_int_def)
    qed
  next
    case False
    show ?thesis
    proof (cases "j < 0")
      case True
      with False a show ?thesis
        using str_nat_no_minus [of "nat i" "str_nat (nat (- j))"] by (simp add: str_int_def)
    next
      case False
      with \<open>\<not> i < 0\<close> a have "nat i = nat j"
        by (auto simp: str_int_def dest: str_nat_inj)
      with False \<open>\<not> i < 0\<close> show ?thesis by simp
    qed
  qed
qed

lemma STORE_reply [simp]: "STORE (reply s w) = STORE w"
  by (simp add: reply_def)

lemma STORE_did [simp]: "STORE (did c w) = STORE w"
  by (simp add: did_def)

lemma STORE_after_save [simp]: "STORE (save_store P w) = STORE w"
  by (simp add: save_store_def split: write_result.splits)

lemma chat_warns_add_warn:
  "chat_warns (snd (add_warn st ck tk)) ck' tk'
     = (if ck' = ck \<and> tk' = tk
        then Some ((case chat_warns st ck tk of None \<Rightarrow> 0 | Some n \<Rightarrow> n) + 1)
        else chat_warns st ck' tk')"
  by (auto simp: add_warn_def chat_warns_def Let_def split: option.splits)

lemma chat_warns_cong: "warns st = warns st' \<Longrightarrow> chat_warns st = chat_warns st'"
  by (simp add: chat_warns_def fun_eq_iff)

lemma STORE_kick: "STORE (world_of (kick_cmd P u args w)) = STORE w"
  by (auto simp: kick_cmd_def Let_def split: prod.splits option.splits sum.splits)

lemma STORE_ban: "STORE (world_of (ban_cmd P u args now w)) = STORE w"
  by (auto simp: ban_cmd_def Let_def split: prod.splits option.splits sum.splits)

lemma STORE_unban: "STORE (world_of (unban_cmd P u args w)) = STORE w"
  by (auto simp: unban_cmd_def Let_def split: prod.splits option.splits sum.splits)

lemma STORE_mute: "STORE (world_of (mute_cmd P u args now w)) = STORE w"
  by (auto simp: mute_cmd_def Let_def split: prod.splits option.splits sum.splits)

lemma STORE_unmute: "STORE (world_of (unmute_cmd P u args w)) = STORE w"
  by (auto simp: unmute_cmd_def Let_def split: prod.splits option.splits sum.splits)

lemma STORE_search: "STORE (world_of (search_cmd P u args w)) = STORE w"
  by (auto simp: search_cmd_def Let_def split: option.splits)

lemma STORE_blacklist: "STORE (world_of (blacklist_cmd A P u args w)) = STORE w"
  by (auto simp: blacklist_cmd_def reply_def split: option.splits list.splits)

lemma STORE_unblacklist: "STORE (world_of (unblacklist_cmd A P u args w)) = STORE w"
  by (auto simp: unblacklist_cmd_def reply_def split: option.splits list.splits)

lemma STORE_list_blacklist: "STORE (world_of (list_blacklist_cmd A P u args w)) = STORE w"
  by (auto simp: list_blacklist_cmd_def split: option.splits)

lemma warns_setwelcome: "warns (STORE (world_of (setwelcome_cmd P u args w))) = warns (STORE w)"
  by (auto simp: setwelcome_cmd_def set_welcome_def Let_def split: prod.splits option.splits)

lemma warns_clearwelcome: "warns (STORE (world_of (clearwelcome_cmd P u args w))) = warns (STORE w)"
  by (auto simp: clearwelcome_cmd_def Let_def split: prod.splits option.splits)

lemma warns_set_pointer: "set_pointer st ck i = Some st' \<Longrightarrow> warns st' = warns st"
  by (auto simp: set_pointer_def split: option.splits)

lemma warns_welcome_step:
  "warns (STORE (welcome_step P chat template channel lid m w)) = warns (STORE w)"
  by (auto simp: welcome_step_def Let_def warns_set_pointer
      split: prod.splits option.splits sum.splits)

lemma warns_welcome_loop:
  "warns (STORE (welcome_loop P chat template channel lid ms w)) = warns (STORE w)"
  by (induction ms arbitrary: w) (simp_all add: warns_welcome_step)

lemma warns_welcome_handler: "warns (STORE (world_of (welcome_handler P u w))) = warns (STORE w)"
  by (auto simp: welcome_handler_def warns_welcome_loop split: option.splits)

lemma STORE_text: 
  "STORE (world_of (case block_ip_handler P u w of
        Returned w1 \<Rightarrow> ignore_non_commands P u w1
      | Raised e w1 \<Rightarrow> ignore_non_commands P u w1)) = STORE w"
  by (simp add: block_ip_handler_def ignore_non_commands_def)

lemma warn_cmd_store:
  "STORE (world_of (warn_cmd P u args w)) = STORE w \<or>
   (\<exists>ck tk. STORE (world_of (warn_cmd P u args w)) = snd (add_warn (STORE w) ck tk))"
proof (cases "warn_cmd P u args w")
  case (Returned w')
  then show ?thesis
    by (auto simp: warn_cmd_def Let_def split: prod.splits option.splits sum.splits if_splits)
       (metis snd_conv)
next
  case (Raised e w')
  then show ?thesis
    by (auto simp: warn_cmd_def Let_def split: prod.splits option.splits sum.splits if_splits)
qed

lemma add_warn_mono:
  "chat_warns st ck tk = Some n \<Longrightarrow>
     \<exists>n'. chat_warns (snd (add_warn st ck' tk')) ck tk = Some n' \<and> n \<le> n'"
  by (auto simp: chat_warns_add_warn)

lemma run_command_warns:
  "warns (STORE (world_of (run_command A P name u args now w))) = warns (STORE w) \<or>
   (\<exists>ck tk. STORE (world_of (run_command A P name u args now w)) = snd (add_warn (STORE w) ck tk))"
proof -
  have "warns (STORE (world_of (warn_cmd P u args w))) = warns (STORE w) \<or>
     (\<exists>ck tk. STORE (world_of (warn_cmd P u args w)) = snd (add_warn (STORE w) ck tk))"
    using warn_cmd_store [of P u args w] by auto
  then show ?thesis
  by (simp add: run_command_def start_def help_cmd_def STORE_kick STORE_ban STORE_unban
      STORE_mute STORE_unmute STORE_search STORE_blacklist STORE_unblacklist
      STORE_list_blacklist warns_setwelcome warns_clearwelcome)
qed

lemma handle_warns:
  "warns (STORE (world_of (handle A P e w))) = warns (STORE w) \<or>
   (\<exists>ck tk. STORE (world_of (handle A P e w)) = snd (add_warn (STORE w) ck tk))"
proof (cases e)
  case (Command name u args now)
  then show ?thesis using run_command_warns [of A P name u args now w] by simp
next
  case (NewChatMembers u)
  then show ?thesis by (simp add: warns_welcome_handler)
next
  case (TextMessage u)
  then show ?thesis by (simp add: STORE_text)
qed

lemma handle_mono:
  assumes "chat_warns (STORE w) ck tk = Some n"
  shows "\<exists>n'. chat_warns (STORE (world_of (handle A P e w))) ck tk = Some n' \<and> n \<le> n'"
  using handle_warns [of A P e w]
proof
  assume "warns (STORE (world_of (handle A P e w))) = warns (STORE w)"
  then have "chat_warns (STORE (world_of (handle A P e w))) = chat_warns (STORE w)"
    by (rule chat_warns_cong)
  with assms show ?thesis by simp
next
  assume "\<exists>ck tk. STORE (world_of (handle A P e w)) = snd (add_warn (STORE w) ck tk)"
  then obtain ck' tk' where "STORE (world_of (handle A P e w)) = snd (add_warn (STORE w) ck' tk')"
    by blast
  then show ?thesis using add_warn_mono [OF assms, of ck' tk'] by simp
qed

lemma warn_cmd_success:
  assumes "check_issuer_permission P u ''kick'' (calls w) = (True, lg)"
    and "effective_chat u = Some chat"
    and "spec_resolve_target u args = Some t"
  shows "warn_cmd P u args w =
           Returned (reply (''Warned '' @ str_int t @ '' (''
                            @ str_int (fst (add_warn (STORE w) (str_int chat) (str_int t)))
                            @ '' total).'')
                      (save_store P (w\<lparr>calls := lg,
                                       STORE := snd (add_warn (STORE w) (str_int chat) (str_int t))\<rparr>)))"
  using assms resolve_target_spec [of u args "''Usage: /warn <user_id or reply>''" t]
  by (auto simp: warn_cmd_def Let_def split: prod.splits)

lemma fst_add_warn:
  "fst (add_warn st (str_int chat) (str_int t)) = warn_count st chat t + 1"
  by (simp add: add_warn_def warn_count_def chat_warns_def Let_def split: option.splits)

lemma warn_count_after:
  "warn_count (snd (add_warn st (str_int chat) (str_int t))) c' t'
     = (if c' = chat \<and> t' = t then warn_count st chat t + 1 else warn_count st c' t')"
  using str_int_inj [of c' chat] str_int_inj [of t' t]
  by (auto simp: warn_count_def chat_warns_add_warn)

lemma chat_warns_after_other:
  "(c', t') \<noteq> (chat, t) \<Longrightarrow>
     chat_warns (snd (add_warn st (str_int chat) (str_int t))) (str_int c') (str_int t')
       = chat_warns st (str_int c') (str_int t')"
  using str_int_inj [of c' chat] str_int_inj [of t' t]
  by (auto simp: chat_warns_add_warn)

lemma warn_repeat:
  assumes "\<forall>lg'. fst (check_issuer_permission P u ''kick'' lg')"
    and "effective_chat u = Some chat"
    and "spec_resolve_target u args = Some t"
  shows "warn_count (STORE (((\<lambda>w. world_of (warn_cmd P u args w)) ^^ n) w)) chat t
           = warn_count (STORE w) chat t + int n"
proof (induction n)
  case 0
  show ?case by simp
next
  case (Suc n)
  let ?w = "((\<lambda>w. world_of (warn_cmd P u args w)) ^^ n) w"
  obtain lg where "check_issuer_permission P u ''kick'' (calls ?w) = (True, lg)"
    using assms(1) by (metis (full_types) prod.collapse)
  then have "STORE (world_of (warn_cmd P u args ?w))
               = snd (add_warn (STORE ?w) (str_int chat) (str_int t))"
    using warn_cmd_success [OF _ assms(2,3)] by (simp add: STORE_save_store)
  then show ?case using Suc by (simp add: warn_count_after)
qed

text \<open>
  C3. A warn command that passes the permission check and resolves its target sets the
  counter of that chat and target to its former value plus one (a pair never warned
  counts zero), leaves the counter of every other chat and target as it was, saves the
  document and reports the new total; \<open>n\<close> such commands in a row add \<open>n\<close>. No event
  the handlers are registered for, whatever its kind, removes a counter or makes it smaller.
\<close>

theorem warn_counter:
  assumes "check_issuer_permission P u ''kick'' (calls w) = (True, lg)"
    and "effective_chat u = Some chat"
    and "spec_resolve_target u args = Some t"
  shows
    "warn_count (STORE (world_of (warn_cmd P u args w))) chat t = warn_count (STORE w) chat t + 1
   \<and> chat_warns (STORE (world_of (warn_cmd P u args w))) (str_int chat) (str_int t)
       = Some (warn_count (STORE w) chat t + 1)
   \<and> (\<forall>c' t'. (c', t') \<noteq> (chat, t) \<longrightarrow>
         chat_warns (STORE (world_of (warn_cmd P u args w))) (str_int c') (str_int t')
           = chat_warns (STORE w) (str_int c') (str_int t'))
   \<and> calls (world_of (warn_cmd P u args w))
       = lg @ [SaveStore,
               ReplyText (''Warned '' @ str_int t @ '' ('' @ str_int (warn_count (STORE w) chat t + 1)
                          @ '' total).'')]
   \<and> (write_file P lg = Written \<longrightarrow>
         store_file (world_of (warn_cmd P u args w))
           = Some (Document (STORE (world_of (warn_cmd P u args w)))))
   \<and> ((\<forall>lg'. fst (check_issuer_permission P u ''kick'' lg')) \<longrightarrow>
         (\<forall>n. warn_count (STORE (((\<lambda>w. world_of (warn_cmd P u args w)) ^^ n) w)) chat t
                = warn_count (STORE w) chat t + int n))
   \<and> (\<forall>A e w0 ck tk n. chat_warns (STORE w0) ck tk = Some n \<longrightarrow>
         (\<exists>n'. chat_warns (STORE (world_of (handle A P e w0))) ck tk = Some n' \<and> n \<le> n'))"
proof -
  note s = warn_cmd_success [OF assms]
  have st: "STORE (world_of (warn_cmd P u args w))
              = snd (add_warn (STORE w) (str_int chat) (str_int t))"
    by (simp add: s)
  have a: "warn_count (STORE (world_of (warn_cmd P u args w))) chat t = warn_count (STORE w) chat t + 1"
    by (simp add: st warn_count_after)
  have b: "chat_warns (STORE (world_of (warn_cmd P u args w))) (str_int chat) (str_int t)
       = Some (warn_count (STORE w) chat t + 1)"
    by (simp add: st chat_warns_add_warn warn_count_def)
  have c: "\<forall>c' t'. (c', t') \<noteq> (chat, t) \<longrightarrow>
         chat_warns (STORE (world_of (warn_cmd P u args w))) (str_int c') (str_int t')
           = chat_warns (STORE w) (str_int c') (str_int t')"
    unfolding st using chat_warns_after_other by blast
  have d: "calls (world_of (warn_cmd P u args w))
       = lg @ [SaveStore,
               ReplyText (''Warned '' @ str_int t @ '' ('' @ str_int (warn_count (STORE w) chat t + 1)
                          @ '' total).'')]"
    by (simp add: s reply_def reply_text_def calls_save_store fst_add_warn)
  have e: "write_file P lg = Written \<longrightarrow>
         store_file (world_of (warn_cmd P u args w))
           = Some (Document (STORE (world_of (warn_cmd P u args w))))"
    by (simp add: s reply_def save_store_def did_def)
  have f: "(\<forall>lg'. fst (check_issuer_permission P u ''kick'' lg')) \<longrightarrow>
         (\<forall>n. warn_count (STORE (((\<lambda>w. world_of (warn_cmd P u args w)) ^^ n) w)) chat t
                = warn_count (STORE w) chat t + int n)"
    using warn_repeat [OF _ assms(2,3)] by blast
  have g: "\<forall>A e w0 ck tk n. chat_warns (STORE w0) ck tk = Some n \<longrightarrow>
         (\<exists>n'. chat_warns (STORE (world_of (handle A P e w0))) ck tk = Some n' \<and> n \<le> n')"
    using handle_mono by blast
  show ?thesis
    by (rule conjI, rule a, rule conjI, rule b, rule conjI, rule c, rule conjI, rule d,
        rule conjI, rule e, rule conjI, rule f, rule g)
qed

theorem warn_counter_witness:
  "warn_count (STORE (world_of (warn_cmd (demo_platform (Inr creator_member)) demo_update [''42'']
       (demo_world\<lparr>STORE := demo_store\<rparr>)))) (- 1001) 42 = 3
   \<and> chat_warns (STORE (world_of (warn_cmd (demo_platform (Inr creator_member)) demo_update [''42'']
       (demo_world\<lparr>STORE := demo_store\<rparr>)))) ''-1001'' ''43'' = Some 1
   \<and> calls (world_of (warn_cmd (demo_platform (Inr creator_member)) demo_update [''42'']
       (demo_world\<lparr>STORE := demo_store\<rparr>)))
       = [GetChatMember (- 1001) 7, SaveStore, ReplyText ''Warned 42 (3 total).'']"
proof -
  let ?P = "demo_platform (Inr creator_member)"
  let ?w = "demo_world\<lparr>STORE := demo_store\<rparr>"
  have c: "check_issuer_permission ?P demo_update ''kick'' (calls ?w) = (True, [GetChatMember (- 1001) 7])"
    by (simp add: check_issuer_permission_def demo_platform_def demo_update_def creator_member_def
        demo_world_def)
  have ch: "effective_chat demo_update = Some (- 1001)"
    by (simp add: demo_update_def)
  have s: "spec_resolve_target demo_update [''42''] = Some 42"
    by (simp add: spec_resolve_target_def demo_update_def py_int_42)
  have k: "str_int (- 1001) = ''-1001''" "str_int 42 = ''42''" "str_int 43 = ''43''" "str_int 3 = ''3''"
    by (simp_all add: str_int_def str_nat.simps)
  have n: "warn_count (STORE ?w) (- 1001) 42 = 2"
    by (simp add: warn_count_def chat_warns_def demo_world_def demo_store_def k)
  have o: "chat_warns (STORE ?w) ''-1001'' ''43'' = Some 1"
    by (simp add: chat_warns_def demo_world_def demo_store_def)
  note th = warn_counter [OF c ch s]
  have a: "warn_count (STORE (world_of (warn_cmd ?P demo_update [''42''] ?w))) (- 1001) 42 = 3"
    using th n by simp
  have "(- 1001, 43) \<noteq> (- 1001, 42::int)" by simp
  with th have "chat_warns (STORE (world_of (warn_cmd ?P demo_update [''42''] ?w)))
        (str_int (- 1001)) (str_int 43) = chat_warns (STORE ?w) (str_int (- 1001)) (str_int 43)"
    by blast
  then have b: "chat_warns (STORE (world_of (warn_cmd ?P demo_update [''42''] ?w))) ''-1001'' ''43'' = Some 1"
    using o by (simp only: k)
  have d: "calls (world_of (warn_cmd ?P demo_update [''42''] ?w))
       = [GetChatMember (- 1001) 7, SaveStore, ReplyText ''Warned 42 (3 total).'']"
    using th n by (simp add: k)
  show ?thesis using a b d by simp
qed

section \<open>Properties: durations\<close>





























lemmas duration_eval =
  strip_def is_space_def is_digit_def lower_def lower_char_def unit_tokens_def
  nat_of_digits_def digit_val_def unit_seconds_def first_letter_seconds_def representable_def
  duration_grammar_def duration_span_def spec_duration_grammar_def spec_duration_span_def
  parse_duration_def match_duration_def timedelta_def startswith_def Let_def



section \<open>Properties: the duration of a ban and of a mute\<close>

lemma ban_with_until:
  assumes "check_issuer_permission P u ''ban'' (calls w) = (True, lg)"
    and "effective_chat u = Some chat"
    and "spec_resolve_target u args = Some t"
    and "ban_until args now = Inr until"
  shows "ban_cmd P u args now w =
           Returned (w\<lparr>calls := lg @ [BanChatMember chat t until,
                       ReplyText (case ban_chat_member P lg chat t until of
                                    Inl e \<Rightarrow> ''Failed to ban: '' @ e
                                  | Inr ok \<Rightarrow> ''Banned '' @ str_int t @ ''.'')]\<rparr>)"
  using assms resolve_target_spec [of u args "''Usage: /ban <user_id or reply> [duration]''" t]
  by (auto simp: ban_cmd_def Let_def reply_def reply_text_def did_def split: sum.splits)

lemma ban_raises:
  assumes "check_issuer_permission P u ''ban'' (calls w) = (True, lg)"
    and "effective_chat u = Some chat"
    and "spec_resolve_target u args = Some t"
    and "ban_until args now = Inl e"
  shows "ban_cmd P u args now w = Raised e (w\<lparr>calls := lg\<rparr>)"
  using assms resolve_target_spec [of u args "''Usage: /ban <user_id or reply> [duration]''" t]
  by (auto simp: ban_cmd_def Let_def)

lemma datetime_add_ok:
  "datetime_min \<le> now + total_seconds dur \<Longrightarrow> now + total_seconds dur \<le> datetime_max \<Longrightarrow>
     datetime_add now dur = Inr (now + total_seconds dur)"
  by (simp add: datetime_add_def Let_def)

lemma mute_invalid:
  assumes "check_issuer_permission P u ''mute'' (calls w) = (True, lg)"
    and "effective_chat u = Some chat"
    and "resolve_mute u args = Inr (t, d)"
    and "parse_duration d = Inr None \<or> parse_duration d = Inr (Some (Seconds 0))"
  shows "mute_cmd P u args now w =
           Returned (w\<lparr>calls := lg @ [ReplyText ''Invalid duration. Examples: 10m, 2h'']\<rparr>)"
  using assms
  by (auto simp: mute_cmd_def Let_def reply_def reply_text_def)

text \<open>
  C4, as the code has it. After a passed permission check, with the target resolved and
  a second argument present: when \<open>parse_duration\<close> gives that argument a span that is
  not zero and the expiry is a representable instant, \<open>ban_cmd\<close> issues the ban with
  expiry now plus the span; when \<open>parse_duration\<close> rejects the argument or gives the
  zero span, it issues the ban with no expiry, and the reply is the one of a ban
  without duration. \<open>mute_cmd\<close>, when \<open>parse_duration\<close> rejects its duration argument
  or gives the zero span, replies that the duration is invalid and makes no other call.
\<close>

theorem ban_mute_duration:
  assumes "effective_chat u = Some chat"
  shows
    "(check_issuer_permission P u ''ban'' (calls w) = (True, lg)
        \<and> spec_resolve_target u args = Some t \<and> 2 \<le> length args \<longrightarrow>
        (\<forall>dur. parse_duration (Some (args ! 1)) = Inr (Some dur) \<and> total_seconds dur \<noteq> 0
               \<and> datetime_min \<le> now + total_seconds dur \<and> now + total_seconds dur \<le> datetime_max
           \<longrightarrow> ban_cmd P u args now w =
                 Returned (w\<lparr>calls := lg @ [BanChatMember chat t (Some (now + total_seconds dur)),
                   ReplyText (case ban_chat_member P lg chat t (Some (now + total_seconds dur)) of
                                Inl e \<Rightarrow> ''Failed to ban: '' @ e
                              | Inr ok \<Rightarrow> ''Banned '' @ str_int t @ ''.'')]\<rparr>))
        \<and> (parse_duration (Some (args ! 1)) = Inr None
              \<or> parse_duration (Some (args ! 1)) = Inr (Some (Seconds 0))
           \<longrightarrow> ban_cmd P u args now w =
                 Returned (w\<lparr>calls := lg @ [BanChatMember chat t None,
                   ReplyText (case ban_chat_member P lg chat t None of
                                Inl e \<Rightarrow> ''Failed to ban: '' @ e
                              | Inr ok \<Rightarrow> ''Banned '' @ str_int t @ ''.'')]\<rparr>)))
   \<and> (check_issuer_permission P u ''mute'' (calls w) = (True, lg)
        \<and> resolve_mute u args = Inr (t, d)
        \<and> (parse_duration d = Inr None \<or> parse_duration d = Inr (Some (Seconds 0))) \<longrightarrow>
        mute_cmd P u args now w =
          Returned (w\<lparr>calls := lg @ [ReplyText ''Invalid duration. Examples: 10m, 2h'']\<rparr>))"
proof -
  have a: "check_issuer_permission P u ''ban'' (calls w) = (True, lg)
        \<and> spec_resolve_target u args = Some t \<and> 2 \<le> length args \<longrightarrow>
        (\<forall>dur. parse_duration (Some (args ! 1)) = Inr (Some dur) \<and> total_seconds dur \<noteq> 0
               \<and> datetime_min \<le> now + total_seconds dur \<and> now + total_seconds dur \<le> datetime_max
           \<longrightarrow> ban_cmd P u args now w =
                 Returned (w\<lparr>calls := lg @ [BanChatMember chat t (Some (now + total_seconds dur)),
                   ReplyText (case ban_chat_member P lg chat t (Some (now + total_seconds dur)) of
                                Inl e \<Rightarrow> ''Failed to ban: '' @ e
                              | Inr ok \<Rightarrow> ''Banned '' @ str_int t @ ''.'')]\<rparr>))"
  proof (intro impI allI)
    fix dur
    assume h: "check_issuer_permission P u ''ban'' (calls w) = (True, lg)
        \<and> spec_resolve_target u args = Some t \<and> 2 \<le> length args"
      and k: "parse_duration (Some (args ! 1)) = Inr (Some dur) \<and> total_seconds dur \<noteq> 0
               \<and> datetime_min \<le> now + total_seconds dur \<and> now + total_seconds dur \<le> datetime_max"
    have "ban_until args now = Inr (Some (now + total_seconds dur))"
      using h k by (simp add: ban_until_def datetime_add_ok)
    then show "ban_cmd P u args now w =
                 Returned (w\<lparr>calls := lg @ [BanChatMember chat t (Some (now + total_seconds dur)),
                   ReplyText (case ban_chat_member P lg chat t (Some (now + total_seconds dur)) of
                                Inl e \<Rightarrow> ''Failed to ban: '' @ e
                              | Inr ok \<Rightarrow> ''Banned '' @ str_int t @ ''.'')]\<rparr>)"
      using h ban_with_until [OF _ assms] by blast
  qed
  have b: "check_issuer_permission P u ''ban'' (calls w) = (True, lg)
        \<and> spec_resolve_target u args = Some t \<and> 2 \<le> length args \<longrightarrow>
        (parse_duration (Some (args ! 1)) = Inr None
              \<or> parse_duration (Some (args ! 1)) = Inr (Some (Seconds 0))
           \<longrightarrow> ban_cmd P u args now w =
                 Returned (w\<lparr>calls := lg @ [BanChatMember chat t None,
                   ReplyText (case ban_chat_member P lg chat t None of
                                Inl e \<Rightarrow> ''Failed to ban: '' @ e
                              | Inr ok \<Rightarrow> ''Banned '' @ str_int t @ ''.'')]\<rparr>))"
  proof (intro impI)
    assume h: "check_issuer_permission P u ''ban'' (calls w) = (True, lg)
        \<and> spec_resolve_target u args = Some t \<and> 2 \<le> length args"
      and k: "parse_duration (Some (args ! 1)) = Inr None
              \<or> parse_duration (Some (args ! 1)) = Inr (Some (Seconds 0))"
    have "ban_until args now = Inr None"
      using h k by (auto simp: ban_until_def)
    then show "ban_cmd P u args now w =
                 Returned (w\<lparr>calls := lg @ [BanChatMember chat t None,
                   ReplyText (case ban_chat_member P lg chat t None of
                                Inl e \<Rightarrow> ''Failed to ban: '' @ e
                              | Inr ok \<Rightarrow> ''Banned '' @ str_int t @ ''.'')]\<rparr>)"
      using h ban_with_until [OF _ assms] by blast
  qed
  have c: "check_issuer_permission P u ''mute'' (calls w) = (True, lg)
        \<and> resolve_mute u args = Inr (t, d)
        \<and> (parse_duration d = Inr None \<or> parse_duration d = Inr (Some (Seconds 0))) \<longrightarrow>
        mute_cmd P u args now w =
          Returned (w\<lparr>calls := lg @ [ReplyText ''Invalid duration. Examples: 10m, 2h'']\<rparr>)"
    using mute_invalid [OF _ assms] by blast
  from a b c show ?thesis by blast
qed

lemma str_int_42: "str_int 42 = ''42''"
  by (simp add: str_int_def str_nat.simps)

lemma demo_resolve_42: "spec_resolve_target demo_update (''42'' # rest) = Some 42"
  by (simp add: spec_resolve_target_def demo_update_def py_int_42)

theorem ban_mute_duration_witness:
  "ban_cmd (demo_platform (Inr creator_member)) demo_update [''42'', ''10m''] 1700000000 demo_world
     = Returned (demo_world\<lparr>calls := [GetChatMember (- 1001) 7,
                   BanChatMember (- 1001) 42 (Some 1700000600), ReplyText ''Banned 42.'']\<rparr>)
   \<and> ban_cmd (demo_platform (Inr creator_member)) demo_update [''42'', ''soon''] 1700000000 demo_world
     = Returned (demo_world\<lparr>calls := [GetChatMember (- 1001) 7,
                   BanChatMember (- 1001) 42 None, ReplyText ''Banned 42.'']\<rparr>)
   \<and> mute_cmd (demo_platform (Inr creator_member)) demo_update [''42'', ''soon''] 1700000000 demo_world
     = Returned (demo_world\<lparr>calls := [GetChatMember (- 1001) 7,
                   ReplyText ''Invalid duration. Examples: 10m, 2h'']\<rparr>)"
proof -
  let ?P = "demo_platform (Inr creator_member)"
  have ch: "effective_chat demo_update = Some (- 1001)"
    by (simp add: demo_update_def)
  have c: "\<And>need. check_issuer_permission ?P demo_update need (calls demo_world)
             = (True, [GetChatMember (- 1001) 7])"
    by (simp add: demo_check demo_world_def)
  have p1: "parse_duration (Some ''10m'') = Inr (Some (Seconds 600))"
    by (simp add: duration_eval)
  have p2: "parse_duration (Some ''soon'') = Inr None"
    by (simp add: duration_eval)
  have m: "resolve_mute demo_update [''42'', ''soon''] = Inr (42, Some ''soon'')"
    by (simp add: resolve_mute_def demo_update_def py_int_42)
  have b: "\<And>lg until. ban_chat_member ?P lg (- 1001) 42 until = Inr ()"
    by (simp add: demo_platform_def)
  show ?thesis
    using ban_mute_duration [OF ch, of ?P demo_world "[GetChatMember (- 1001) 7]"
        "[''42'', ''10m'']" 42 1700000000 "Some ''soon''"]
      ban_mute_duration [OF ch, of ?P demo_world "[GetChatMember (- 1001) 7]"
        "[''42'', ''soon'']" 42 1700000000 "Some ''soon''"]
    by (simp add: c demo_resolve_42 p1 p2 m b str_int_42 datetime_min_def datetime_max_def)
qed

theorem ban_duration_claim_counterexample:
  "parse_duration (Some ''0'') = Inr (Some (Seconds 0))
   \<and> ban_cmd (demo_platform (Inr creator_member)) demo_update [''42'', ''0''] 1700000000 demo_world
     = Returned (demo_world\<lparr>calls := [GetChatMember (- 1001) 7,
                   BanChatMember (- 1001) 42 None, ReplyText ''Banned 42.'']\<rparr>)
   \<and> parse_duration (Some ''3000000d'') = Inr (Some (Seconds 259200000000))
   \<and> ban_cmd (demo_platform (Inr creator_member)) demo_update [''42'', ''3000000d''] 1700000000 demo_world
     = Raised OverflowError (demo_world\<lparr>calls := [GetChatMember (- 1001) 7]\<rparr>)"
proof -
  let ?P = "demo_platform (Inr creator_member)"
  have ch: "effective_chat demo_update = Some (- 1001)"
    by (simp add: demo_update_def)
  have c: "check_issuer_permission ?P demo_update ''ban'' (calls demo_world)
             = (True, [GetChatMember (- 1001) 7])"
    by (simp add: demo_check demo_world_def)
  have p0: "parse_duration (Some ''0'') = Inr (Some (Seconds 0))"
    by (simp add: duration_eval)
  have p1: "parse_duration (Some ''3000000d'') = Inr (Some (Seconds 259200000000))"
    by (simp add: duration_eval)
  have u0: "ban_until [''42'', ''0''] 1700000000 = Inr None"
    by (simp add: ban_until_def p0)
  have u1: "ban_until [''42'', ''3000000d''] 1700000000 = Inl OverflowError"
    by (simp add: ban_until_def p1 datetime_add_def datetime_min_def datetime_max_def)
  have b: "\<And>lg until. ban_chat_member ?P lg (- 1001) 42 until = Inr ()"
    by (simp add: demo_platform_def)
  show ?thesis
    using ban_with_until [OF c ch demo_resolve_42 u0] ban_raises [OF c ch demo_resolve_42 u1]
    by (simp add: p0 p1 b str_int_42)
qed

end
